theory Spec2Isabelle
  imports Complex_Main "HOL-Library.Word" "HOL-Library.Signed_Division"
begin

section \<open>The executor of src/FlashbotsMEVExecutor.ts\<close>

text \<open>
  The source file holds two revisions of the class \<open>FlashbotsMEVExecutor\<close>; the
  development follows the later one (lines 196 to 389), which reads the reserves of two
  pairs in \<open>analyzeOpportunity\<close> and refuses to build a bundle while the nonce is
  undefined.

  Modelling decisions, each visible in the definitions below:
  \<^item> an ethers \<open>BigNumber\<close> is an arbitrary-precision integer: \<open>int\<close>. Its \<open>div\<close>
    throws on a zero divisor and truncates towards zero otherwise;
    \<open>mul\<close>, \<open>sub\<close>, \<open>abs\<close> and \<open>gt\<close> are the operations of \<open>int\<close>;
  \<^item> \<open>parseEther\<close> multiplies a decimal literal by \<open>10 ^ 18\<close>; its three uses are the
    constants \<open>ONE_ETHER\<close>, \<open>MIN_PROFIT_THRESHOLD\<close> and \<open>MAX_LOAN_WEI\<close>;
  \<^item> the nonce and the block number are integer-valued JavaScript numbers far below
    \<open>2 ^ 53\<close>, where number arithmetic is exact: \<open>nat\<close>, and \<open>nat option\<close> for
    \<open>number | undefined\<close>;
  \<^item> the confidence score is compared, never rounded: \<open>real\<close>;
  \<^item> every awaited call on a collaborator settles to a value of \<open>exn + 'a\<close>:
    \<open>Inl\<close> when the promise rejects, \<open>Inr\<close> when it resolves. What the collaborators
    answer is an input of the model.
\<close>

subsection \<open>Thrown values\<close>

datatype exn =
    NotReady          \<comment> \<open>\<open>new Error("Executor or nonce not ready.")\<close>\<close>
  | DivisionByZero    \<comment> \<open>the \<open>NUMERIC_FAULT\<close> of \<open>BigNumber.div\<close>\<close>
  | Rejection string  \<comment> \<open>a collaborator's promise rejected with this reason\<close>

subsection \<open>BigNumber and the constants\<close>

type_synonym BigNumber = int

definition bn_div :: "BigNumber \<Rightarrow> BigNumber \<Rightarrow> exn + BigNumber" where
  "bn_div a b = (if b = 0 then Inl DivisionByZero else Inr (a sdiv b))"

definition ONE_ETHER :: BigNumber where
  "ONE_ETHER = 10 ^ 18"

definition MIN_PROFIT_THRESHOLD :: BigNumber where
  "MIN_PROFIT_THRESHOLD = 5 * 10 ^ 16"

definition MAX_LOAN_AMOUNT_ETH :: int where
  "MAX_LOAN_AMOUNT_ETH = 100000"

definition MAX_LOAN_WEI :: BigNumber where
  "MAX_LOAN_WEI = MAX_LOAN_AMOUNT_ETH * 10 ^ 18"

definition AI_THRESHOLD :: real where
  "AI_THRESHOLD = 85 / 100"

definition TARGET_TOKEN_ADDRESS :: string where
  "TARGET_TOKEN_ADDRESS = ''0xC02aaA39b223FE8D0A0e5C4F27EAD9083C756Cc2''"

definition DEX_A_PAIR_ADDRESS :: string where
  "DEX_A_PAIR_ADDRESS = ''0xA478c2975ab1Ea89e8196811F51A7B9429c786c9''"

definition DEX_B_PAIR_ADDRESS :: string where
  "DEX_B_PAIR_ADDRESS = ''0x06da0fdE810a9f5B4C72B3C84b2F823eF69f8480''"

text \<open>
  The source asks for the two pair addresses to be replaced by those of real pairs
  (the note above their declaration). As committed, the three constants are
  mixed-case strings that fail the EIP-55 checksum, and the client library refuses
  such an address: every \<open>getReserves\<close> and every \<open>populateTransaction\<close> then
  rejects. What these calls answer is an input of the model, so the definitions cover
  the process as committed, where both always reject, as well as a process whose
  addresses have been replaced as the note asks.
\<close>

subsection \<open>Loan sizing (executeFlashLoan, step 1)\<close>

text \<open>
  \<^verbatim>\<open>let loanAmount = estimatedProfit.mul(10);
  if (loanAmount.gt(MAX_LOAN_WEI)) { loanAmount = MAX_LOAN_WEI; }\<close>
\<close>

definition loanAmount :: "BigNumber \<Rightarrow> BigNumber" where
  "loanAmount estimatedProfit =
     (let loan = estimatedProfit * 10
      in if loan > MAX_LOAN_WEI then MAX_LOAN_WEI else loan)"

subsection \<open>The scorer (analyzeOpportunity)\<close>

text \<open>
  \<open>getReserves\<close> of a pair answers \<open>(uint112 reserve0, uint112 reserve1, uint32
  blockTimestampLast)\<close>; the scorer reads the first two as BigNumbers.
\<close>

record reserves =
  reserve0 :: "112 word"
  reserve1 :: "112 word"
  blockTimestampLast :: "32 word"

record TransactionResponse =
  hash :: string
  data :: "string option"

record Opportunity =
  isProfitable :: bool
  estimatedProfit :: BigNumber
  aiScore :: real

text \<open>\<open>Promise.all\<close> of two promises rejects as soon as one of them does.\<close>

definition promise_all :: "exn + 'a \<Rightarrow> exn + 'b \<Rightarrow> exn + ('a \<times> 'b)" where
  "promise_all a b =
     (case a of
        Inl e \<Rightarrow> Inl e
      | Inr x \<Rightarrow> (case b of Inl e \<Rightarrow> Inl e | Inr y \<Rightarrow> Inr (x, y)))"

text \<open>
  The arguments after the transaction are what the two \<open>getReserves\<close> calls settle to
  and the number \<open>Math.random()\<close> returns when the scorer draws one. Only the fetch is
  inside the \<open>try\<close>; the divisions that follow are not.
\<close>

definition analyzeOpportunity ::
    "TransactionResponse \<Rightarrow> exn + reserves \<Rightarrow> exn + reserves \<Rightarrow> real \<Rightarrow> exn + Opportunity" where
  "analyzeOpportunity tx fetchA fetchB random =
     (case promise_all fetchA fetchB of
        Inl e \<Rightarrow> Inr \<lparr>isProfitable = False, estimatedProfit = 0, aiScore = 0\<rparr>
      | Inr (reservesA, reservesB) \<Rightarrow>
          (case bn_div (uint (reserve0 reservesA) * ONE_ETHER) (uint (reserve1 reservesA)) of
             Inl e \<Rightarrow> Inl e
           | Inr priceA \<Rightarrow>
               (case bn_div (uint (reserve0 reservesB) * ONE_ETHER) (uint (reserve1 reservesB)) of
                  Inl e \<Rightarrow> Inl e
                | Inr priceB \<Rightarrow>
                    (let difference = \<bar>priceA - priceB\<bar>;
                         potentialProfit = (difference sdiv 100) * ONE_ETHER
                     in if difference > priceA sdiv 100 then
                          if potentialProfit > MIN_PROFIT_THRESHOLD
                          then Inr \<lparr>isProfitable = True, estimatedProfit = potentialProfit,
                                    aiScore = random * (4 / 10) + 6 / 10\<rparr>
                          else Inr \<lparr>isProfitable = False, estimatedProfit = 0, aiScore = 0\<rparr>
                        else Inr \<lparr>isProfitable = False, estimatedProfit = 0, aiScore = 0\<rparr>))))"

subsection \<open>The executor's state and what it asks of its collaborators\<close>

text \<open>
  Of the fields of the class, \<open>flashbotsProvider\<close> (defined or not) and \<open>nonce\<close> are
  the ones that change after construction.
\<close>

record executor =
  flashbotsProvider :: bool
  nonce :: "nat option"

record FlashLoanRequest =
  token :: string
  amount :: BigNumber
  payload :: "string option"

record BundleTransaction =
  transaction :: FlashLoanRequest
  tx_nonce :: "nat option"
  gasLimit :: nat

record RelayError =
  message :: string

record SimulationResult =
  error :: "RelayError option"

text \<open>
  The trace of a run: the calls made on the collaborators, the console lines, and the
  entries into \<open>analyzeOpportunity\<close> and \<open>executeFlashLoan\<close>, in the order in which
  they happen. A signed bundle is identified with the list of transactions handed to
  \<open>signBundle\<close>.
\<close>

datatype call =
    GetTransaction string
  | Call_analyzeOpportunity TransactionResponse
  | GetReserves string
  | Log_Opportunity BigNumber real
  | Log_AIFilter real
  | Call_executeFlashLoan TransactionResponse BigNumber
  | Log_FlashLoan BigNumber "nat option"
  | PopulateTransaction FlashLoanRequest
  | SignBundle "BundleTransaction list"
  | GetBlockNumber
  | Simulate "BundleTransaction list" nat
  | Log_SimulationFailed string
  | SendBundle "BundleTransaction list" nat
  | Log_Success nat
  | Log_Monitor nat
  | GetTransactionCount

text \<open>What the collaborators answer during one run of the \<open>pending\<close> listener.\<close>

record world =
  getTransaction_r :: "exn + TransactionResponse option"
  getReservesA_r :: "exn + reserves"
  getReservesB_r :: "exn + reserves"
  random_r :: real
  populateTransaction_r :: "exn + unit"
  signBundle_r :: "exn + unit"
  getBlockNumber_r :: "exn + nat"
  simulate_r :: "exn + SimulationResult"
  sendBundle_r :: "exn + unit"

subsection \<open>executeFlashLoan, run without interruption\<close>

definition executeFlashLoan ::
    "world \<Rightarrow> TransactionResponse \<Rightarrow> BigNumber \<Rightarrow> executor
      \<Rightarrow> (exn + unit) \<times> executor \<times> call list" where
  "executeFlashLoan w targetTx profit s =
     (let c0 = [Call_executeFlashLoan targetTx profit] in
      if \<not> flashbotsProvider s \<or> nonce s = None then (Inl NotReady, s, c0)
      else
       (let request = \<lparr>token = TARGET_TOKEN_ADDRESS, amount = loanAmount profit,
                        payload = data targetTx\<rparr>;
            c1 = c0 @ [Log_FlashLoan (loanAmount profit) (nonce s), PopulateTransaction request]
        in
        (case populateTransaction_r w of
           Inl e \<Rightarrow> (Inl e, s, c1)
         | Inr _ \<Rightarrow>
            (let bundle = [\<lparr>transaction = request, tx_nonce = nonce s, gasLimit = 3000000\<rparr>];
                 c2 = c1 @ [SignBundle bundle]
             in
             (case signBundle_r w of
                Inl e \<Rightarrow> (Inl e, s, c2)
              | Inr _ \<Rightarrow>
                 (let c3 = c2 @ [GetBlockNumber]
                  in
                  (case getBlockNumber_r w of
                     Inl e \<Rightarrow> (Inl e, s, c3)
                   | Inr blockNumber \<Rightarrow>
                      (let targetBlock = blockNumber + 1;
                           c4 = c3 @ [Simulate bundle targetBlock]
                       in
                       (case simulate_r w of
                          Inl e \<Rightarrow> (Inl e, s, c4)
                        | Inr simulationResult \<Rightarrow>
                           (case error simulationResult of
                              Some err \<Rightarrow>
                                (Inr (), s, c4 @ [Log_SimulationFailed (message err)])
                            | None \<Rightarrow>
                               (let c5 = c4 @ [SendBundle bundle targetBlock]
                                in
                                (case sendBundle_r w of
                                   Inl e \<Rightarrow> (Inl e, s, c5)
                                 | Inr _ \<Rightarrow>
                                     (Inr (), s\<lparr>nonce := map_option Suc (nonce s)\<rparr>,
                                      c5 @ [Log_Success targetBlock])))))))))))))"

subsection \<open>periodicResync\<close>

text \<open>
  \<^verbatim>\<open>const newNonce = await this.provider.getTransactionCount(this.wallet.address);
  if (this.nonce === undefined || newNonce > this.nonce) { this.nonce = newNonce; }\<close>
  The guard \<open>if (!this.provider) return\<close> never fires: the constructor sets the field.
\<close>

definition resync :: "nat \<Rightarrow> executor \<Rightarrow> executor" where
  "resync newNonce s =
     (case nonce s of
        None \<Rightarrow> s\<lparr>nonce := Some newNonce\<rparr>
      | Some n \<Rightarrow> if newNonce > n then s\<lparr>nonce := Some newNonce\<rparr> else s)"

definition periodicResync :: "exn + nat \<Rightarrow> executor \<Rightarrow> (exn + unit) \<times> executor \<times> call list" where
  "periodicResync getTransactionCount_r s =
     (case getTransactionCount_r of
        Inl e \<Rightarrow> (Inl e, s, [GetTransactionCount])
      | Inr newNonce \<Rightarrow> (Inr (), resync newNonce s, [GetTransactionCount]))"

subsection \<open>The listener on pending hashes (startMonitoring)\<close>

text \<open>JavaScript's \<open>!tx.data\<close> holds when the field is missing or the empty string.\<close>

definition has_data :: "TransactionResponse \<Rightarrow> bool" where
  "has_data tx = (case data tx of None \<Rightarrow> False | Some d \<Rightarrow> d \<noteq> [])"

text \<open>The listener from the point where the scorer has answered (lines 274 to 282).\<close>

definition gate ::
    "world \<Rightarrow> TransactionResponse \<Rightarrow> Opportunity \<Rightarrow> executor
      \<Rightarrow> (exn + unit) \<times> executor \<times> call list" where
  "gate w tx opp s =
     (if isProfitable opp then
        if aiScore opp > AI_THRESHOLD then
          (case executeFlashLoan w tx (estimatedProfit opp) s of
             (r, s', cs) \<Rightarrow> (r, s', Log_Opportunity (estimatedProfit opp) (aiScore opp) # cs))
        else (Inr (), s, [Log_Opportunity (estimatedProfit opp) (aiScore opp),
                           Log_AIFilter (aiScore opp)])
      else (Inr (), s, []))"

definition onPending ::
    "world \<Rightarrow> string \<Rightarrow> executor \<Rightarrow> (exn + unit) \<times> executor \<times> call list" where
  "onPending w txHash s =
     (let c0 = [GetTransaction txHash] in
      (case getTransaction_r w of
         Inl e \<Rightarrow> (Inl e, s, c0)
       | Inr None \<Rightarrow> (Inr (), s, c0)
       | Inr (Some tx) \<Rightarrow>
           if \<not> has_data tx then (Inr (), s, c0)
           else
            (let c1 = c0 @ [Call_analyzeOpportunity tx, GetReserves DEX_A_PAIR_ADDRESS,
                            GetReserves DEX_B_PAIR_ADDRESS]
             in
             (case analyzeOpportunity tx (getReservesA_r w) (getReservesB_r w) (random_r w) of
                Inl e \<Rightarrow> (Inl e, s, c1)
              | Inr opp \<Rightarrow> (case gate w tx opp s of (r, s', cs) \<Rightarrow> (r, s', c1 @ cs))))))"

subsection \<open>Interleaving: the listener and the resync as suspended tasks\<close>

text \<open>
  An \<open>async\<close> function runs until its next \<open>await\<close> and is resumed when the awaited
  promise settles; between the two, other listeners and the interval timer run. A task
  is a listener or a resync suspended at an \<open>await\<close>, with the locals it still needs;
  \<open>resume\<close> runs it from there to its next \<open>await\<close>, on the state as it is at that
  moment. The scorer's return and the listener's continuation touch no field of the
  executor between them and are one step here.
\<close>

datatype task =
    AwaitTransaction string
  | AwaitReserves TransactionResponse
  | AwaitPopulate FlashLoanRequest
  | AwaitSign "BundleTransaction list"
  | AwaitBlockNumber "BundleTransaction list"
  | AwaitSimulate "BundleTransaction list" nat
  | AwaitSend "BundleTransaction list" nat
  | AwaitTransactionCount
  | Finished "exn + unit"

datatype response =
    Transaction "exn + TransactionResponse option"
  | Reserves "exn + reserves" "exn + reserves" real
  | Populated "exn + unit"
  | Signed "exn + unit"
  | BlockNumber "exn + nat"
  | Simulated "exn + SimulationResult"
  | Sent "exn + unit"
  | TransactionCount "exn + nat"

text \<open>\<open>executeFlashLoan\<close> up to \<open>await populateTransaction.requestFlashLoan(...)\<close>.\<close>

definition start_executeFlashLoan ::
    "TransactionResponse \<Rightarrow> BigNumber \<Rightarrow> executor \<Rightarrow> task \<times> executor \<times> call list" where
  "start_executeFlashLoan targetTx profit s =
     (if \<not> flashbotsProvider s \<or> nonce s = None
      then (Finished (Inl NotReady), s, [Call_executeFlashLoan targetTx profit])
      else
        let request = \<lparr>token = TARGET_TOKEN_ADDRESS, amount = loanAmount profit,
                         payload = data targetTx\<rparr>
        in (AwaitPopulate request, s,
            [Call_executeFlashLoan targetTx profit,
             Log_FlashLoan (loanAmount profit) (nonce s), PopulateTransaction request]))"

definition start_gate ::
    "TransactionResponse \<Rightarrow> Opportunity \<Rightarrow> executor \<Rightarrow> task \<times> executor \<times> call list" where
  "start_gate tx opp s =
     (if isProfitable opp then
        if aiScore opp > AI_THRESHOLD then
          (case start_executeFlashLoan tx (estimatedProfit opp) s of
             (t, s', cs) \<Rightarrow> (t, s', Log_Opportunity (estimatedProfit opp) (aiScore opp) # cs))
        else (Finished (Inr ()), s, [Log_Opportunity (estimatedProfit opp) (aiScore opp),
                                      Log_AIFilter (aiScore opp)])
      else (Finished (Inr ()), s, []))"

fun resume :: "task \<Rightarrow> response \<Rightarrow> executor \<Rightarrow> task \<times> executor \<times> call list" where
  "resume (AwaitTransaction txHash) (Transaction r) s =
     (case r of
        Inl e \<Rightarrow> (Finished (Inl e), s, [])
      | Inr None \<Rightarrow> (Finished (Inr ()), s, [])
      | Inr (Some tx) \<Rightarrow>
          if \<not> has_data tx then (Finished (Inr ()), s, [])
          else (AwaitReserves tx, s,
                [Call_analyzeOpportunity tx, GetReserves DEX_A_PAIR_ADDRESS,
                 GetReserves DEX_B_PAIR_ADDRESS]))"
| "resume (AwaitReserves tx) (Reserves fetchA fetchB random) s =
     (case analyzeOpportunity tx fetchA fetchB random of
        Inl e \<Rightarrow> (Finished (Inl e), s, [])
      | Inr opp \<Rightarrow> start_gate tx opp s)"
| "resume (AwaitPopulate request) (Populated r) s =
     (case r of
        Inl e \<Rightarrow> (Finished (Inl e), s, [])
      | Inr _ \<Rightarrow>
          let bundle = [\<lparr>transaction = request, tx_nonce = nonce s, gasLimit = 3000000\<rparr>]
          in (AwaitSign bundle, s, [SignBundle bundle]))"
| "resume (AwaitSign bundle) (Signed r) s =
     (case r of
        Inl e \<Rightarrow> (Finished (Inl e), s, [])
      | Inr _ \<Rightarrow> (AwaitBlockNumber bundle, s, [GetBlockNumber]))"
| "resume (AwaitBlockNumber bundle) (BlockNumber r) s =
     (case r of
        Inl e \<Rightarrow> (Finished (Inl e), s, [])
      | Inr blockNumber \<Rightarrow>
          (AwaitSimulate bundle (blockNumber + 1), s, [Simulate bundle (blockNumber + 1)]))"
| "resume (AwaitSimulate bundle targetBlock) (Simulated r) s =
     (case r of
        Inl e \<Rightarrow> (Finished (Inl e), s, [])
      | Inr simulationResult \<Rightarrow>
          (case error simulationResult of
             Some err \<Rightarrow> (Finished (Inr ()), s, [Log_SimulationFailed (message err)])
           | None \<Rightarrow> (AwaitSend bundle targetBlock, s, [SendBundle bundle targetBlock])))"
| "resume (AwaitSend bundle targetBlock) (Sent r) s =
     (case r of
        Inl e \<Rightarrow> (Finished (Inl e), s, [])
      | Inr _ \<Rightarrow>
          (Finished (Inr ()), s\<lparr>nonce := map_option Suc (nonce s)\<rparr>, [Log_Success targetBlock]))"
| "resume AwaitTransactionCount (TransactionCount r) s =
     (case r of
        Inl e \<Rightarrow> (Finished (Inl e), s, [])
      | Inr newNonce \<Rightarrow> (Finished (Inr ()), resync newNonce s, []))"
| "resume t _ s = (t, s, [])"

text \<open>
  The process: the executor, the tasks started so far, the counter of the interval
  timer and the trace. A hash arriving starts a listener, a tick of the timer starts a
  resync, and a settled promise resumes the task that awaits it.
\<close>

record process =
  exec :: executor
  tasks :: "task list"
  healthCheckCount :: nat
  trace :: "call list"

datatype label =
    Pending string
  | Tick
  | Settle nat response

fun step :: "process \<Rightarrow> label \<Rightarrow> process" where
  "step p (Pending txHash) =
     p\<lparr>tasks := tasks p @ [AwaitTransaction txHash],
       trace := trace p @ [GetTransaction txHash]\<rparr>"
| "step p Tick =
     p\<lparr>tasks := tasks p @ [AwaitTransactionCount],
       healthCheckCount := healthCheckCount p + 1,
       trace := trace p @ [Log_Monitor (healthCheckCount p + 1), GetTransactionCount]\<rparr>"
| "step p (Settle i r) =
     (if i < length (tasks p) then
        (case resume (tasks p ! i) r (exec p) of
           (t, s, cs) \<Rightarrow> p\<lparr>exec := s, tasks := (tasks p)[i := t], trace := trace p @ cs\<rparr>)
      else p)"

definition run :: "process \<Rightarrow> label list \<Rightarrow> process" where
  "run p ls = foldl step p ls"

text \<open>The same events with every listener and resync run to its end before the next.\<close>

datatype event =
    Hash world string
  | Resync "exn + nat"

fun handle :: "event \<Rightarrow> executor \<Rightarrow> (exn + unit) \<times> executor \<times> call list" where
  "handle (Hash w txHash) s = onPending w txHash s"
| "handle (Resync r) s = periodicResync r s"

fun run_sequential :: "event list \<Rightarrow> executor \<Rightarrow> executor \<times> ((exn + unit) \<times> call list) list" where
  "run_sequential [] s = (s, [])"
| "run_sequential (ev # evs) s =
     (case handle ev s of
        (r, s', cs) \<Rightarrow>
          (case run_sequential evs s' of (s'', outs) \<Rightarrow> (s'', (r, cs) # outs)))"

subsection \<open>Reading a trace\<close>


definition sent_nonces :: "call list \<Rightarrow> nat option list" where
  "sent_nonces cs =
     concat (map (\<lambda>c. case c of SendBundle bundle _ \<Rightarrow> map tx_nonce bundle | _ \<Rightarrow> []) cs)"


text \<open>
  The nonces of the bundles a sequential run has submitted: those handed to
  \<open>sendBundle\<close> by a listener that returned, which it does only when \<open>sendBundle\<close>
  resolved.
\<close>

definition committed :: "(exn + unit) \<times> call list \<Rightarrow> nat option list" where
  "committed out = (case out of (r, cs) \<Rightarrow> if r = Inr () then sent_nonces cs else [])"

definition submitted :: "((exn + unit) \<times> call list) list \<Rightarrow> nat option list" where
  "submitted outs = concat (map committed outs)"

text \<open>
  A world in which a submission attempt succeeds: every call of \<open>executeFlashLoan\<close>
  resolves and the simulation reports no error.
\<close>

definition accepted :: "world \<Rightarrow> bool" where
  "accepted w =
     (populateTransaction_r w = Inr () \<and> signBundle_r w = Inr ()
      \<and> (case getBlockNumber_r w of Inl _ \<Rightarrow> False | Inr _ \<Rightarrow> True)
      \<and> (case simulate_r w of
            Inl _ \<Rightarrow> False
          | Inr simulationResult \<Rightarrow> error simulationResult = None)
      \<and> sendBundle_r w = Inr ())"

text \<open>
  The claim's reading of a transaction that lacks payload data: no data field, an
  empty one, or no calldata bytes, which the client library reports as \<open>0x\<close>.
\<close>

definition spec_lacks_payload :: "TransactionResponse \<Rightarrow> bool" where
  "spec_lacks_payload tx = (case data tx of None \<Rightarrow> True | Some d \<Rightarrow> d = [] \<or> d = ''0x'')"








text \<open>Resuming one task with a list of answers, one after the other.\<close>

fun drive :: "task \<Rightarrow> response list \<Rightarrow> executor \<Rightarrow> task \<times> executor \<times> call list" where
  "drive t [] s = (t, s, [])"
| "drive t (r # rs) s =
     (case resume t r s of
        (t', s', cs) \<Rightarrow> (case drive t' rs s' of (t'', s'', cs') \<Rightarrow> (t'', s'', cs @ cs')))"

text \<open>
  The answers of a world in the order in which \<open>executeFlashLoan\<close> and the whole
  listener await them.
\<close>

definition loan_answers :: "world \<Rightarrow> response list" where
  "loan_answers w =
     [Populated (populateTransaction_r w), Signed (signBundle_r w),
      BlockNumber (getBlockNumber_r w), Simulated (simulate_r w), Sent (sendBundle_r w)]"

definition answers :: "world \<Rightarrow> response list" where
  "answers w =
     Transaction (getTransaction_r w)
       # Reserves (getReservesA_r w) (getReservesB_r w) (random_r w)
       # loan_answers w"

subsection \<open>Concrete inputs\<close>

text \<open>
  Two venues whose prices differ by half: venue A at 2000 and venue B at 1000 per
  unit, both with a second reserve of 1.
\<close>

definition venueA :: reserves where
  "venueA = \<lparr>reserve0 = 2000, reserve1 = 1, blockTimestampLast = 0\<rparr>"

definition venueB :: reserves where
  "venueB = \<lparr>reserve0 = 1000, reserve1 = 1, blockTimestampLast = 0\<rparr>"


definition tx_aa :: TransactionResponse where
  "tx_aa = \<lparr>hash = ''0xaa'', data = Some ''0x01''\<rparr>"

definition tx_bb :: TransactionResponse where
  "tx_bb = \<lparr>hash = ''0xbb'', data = Some ''0x02''\<rparr>"

definition ready :: executor where
  "ready = \<lparr>flashbotsProvider = True, nonce = Some 7\<rparr>"

text \<open>A world in which every call resolves and the simulation is clean.\<close>

definition clean_world :: world where
  "clean_world =
     \<lparr>getTransaction_r = Inr (Some tx_aa),
      getReservesA_r = Inr venueA, getReservesB_r = Inr venueB, random_r = 9 / 10,
      populateTransaction_r = Inr (), signBundle_r = Inr (), getBlockNumber_r = Inr 100,
      simulate_r = Inr \<lparr>error = None\<rparr>, sendBundle_r = Inr ()\<rparr>"

text \<open>The same world with a simulation that reports an error.\<close>

definition reverting_world :: world where
  "reverting_world =
     clean_world\<lparr>simulate_r := Inr \<lparr>error = Some \<lparr>message = ''execution reverted''\<rparr>\<rparr>\<rparr>"

text \<open>The bundle both worlds build from the state \<open>ready\<close>.\<close>

definition bundle7 :: "TransactionResponse \<Rightarrow> BundleTransaction list" where
  "bundle7 tx =
     [\<lparr>transaction = \<lparr>token = TARGET_TOKEN_ADDRESS, amount = MAX_LOAN_WEI, payload = data tx\<rparr>,
       tx_nonce = Some 7, gasLimit = 3000000\<rparr>]"



text \<open>
  A process in which one listener waits for \<open>sendBundle\<close>, another for the
  simulation and a third for \<open>signBundle\<close>, each holding a bundle built at nonce 7,
  while a resync waits for the chain's count.
\<close>

definition waiting :: process where
  "waiting =
     \<lparr>exec = ready,
      tasks = [AwaitSend (bundle7 tx_aa) 101, AwaitSimulate (bundle7 tx_bb) 101,
               AwaitTransactionCount, AwaitSign (bundle7 tx_bb)],
      healthCheckCount = 1, trace = []\<rparr>"


text \<open>
  A transfer without calldata, whose data the client library reports as the string
  \<open>0x\<close>, in a world where both reads of the reserves are refused.
\<close>

definition tx_plain :: TransactionResponse where
  "tx_plain = \<lparr>hash = ''0xcc'', data = Some ''0x''\<rparr>"

definition refusing_world :: world where
  "refusing_world =
     clean_world\<lparr>getTransaction_r := Inr (Some tx_plain),
                 getReservesA_r := Inl (Rejection ''bad address checksum''),
                 getReservesB_r := Inl (Rejection ''bad address checksum'')\<rparr>"

text \<open>
  Four events handled one after the other: a clean submission, a submission the
  simulation rejects, a resync to a chain count of 20 and another clean submission.
\<close>

definition four_events :: "event list" where
  "four_events =
     [Hash clean_world ''0xaa'', Hash reverting_world ''0xbb'', Resync (Inr 20),
      Hash clean_world ''0xcc'']"


section \<open>Basic facts\<close>


lemma loanAmount_min: "loanAmount p = min (p * 10) MAX_LOAN_WEI"
  by (simp add: loanAmount_def Let_def min_def)

lemma loanAmount_large: "loanAmount 10000000000000000000000000000000000000 = MAX_LOAN_WEI"
  by (simp add: loanAmount_def Let_def MAX_LOAN_WEI_def MAX_LOAN_AMOUNT_ETH_def)

lemma analyze_venues:
  "analyzeOpportunity tx (Inr venueA) (Inr venueB) (9 / 10) =
     Inr \<lparr>isProfitable = True, estimatedProfit = 10 ^ 37, aiScore = 96 / 100\<rparr>"
  by (simp add: analyzeOpportunity_def promise_all_def bn_div_def venueA_def venueB_def
      ONE_ETHER_def MIN_PROFIT_THRESHOLD_def signed_divide_int_def Let_def)

lemma reverting_run:
  "executeFlashLoan reverting_world tx_aa 10000000000000000000000000000000000000 ready =
     (Inr (), ready,
      [Call_executeFlashLoan tx_aa 10000000000000000000000000000000000000,
       Log_FlashLoan MAX_LOAN_WEI (Some 7),
       PopulateTransaction (transaction (hd (bundle7 tx_aa))), SignBundle (bundle7 tx_aa),
       GetBlockNumber, Simulate (bundle7 tx_aa) 101, Log_SimulationFailed ''execution reverted''])"
  by (simp add: executeFlashLoan_def reverting_world_def clean_world_def ready_def
      loanAmount_large bundle7_def Let_def)

lemma clean_run:
  "executeFlashLoan clean_world tx_aa 10000000000000000000000000000000000000 ready =
     (Inr (), ready\<lparr>nonce := Some 8\<rparr>,
      [Call_executeFlashLoan tx_aa 10000000000000000000000000000000000000,
       Log_FlashLoan MAX_LOAN_WEI (Some 7),
       PopulateTransaction (transaction (hd (bundle7 tx_aa))), SignBundle (bundle7 tx_aa),
       GetBlockNumber, Simulate (bundle7 tx_aa) 101, SendBundle (bundle7 tx_aa) 101,
       Log_Success 101])"
  by (simp add: executeFlashLoan_def clean_world_def ready_def loanAmount_large bundle7_def Let_def)

lemma executeFlashLoan_sends:
  assumes "flashbotsProvider s" and "nonce s = Some n" and "accepted w"
    and "getBlockNumber_r w = Inr blockNumber"
  shows "SendBundle [\<lparr>transaction = \<lparr>token = TARGET_TOKEN_ADDRESS, amount = loanAmount profit,
                                       payload = data tx\<rparr>,
                       tx_nonce = Some n, gasLimit = 3000000\<rparr>] (blockNumber + 1)
           \<in> set (snd (snd (executeFlashLoan w tx profit s)))
         \<and> fst (snd (executeFlashLoan w tx profit s)) = s\<lparr>nonce := Some (n + 1)\<rparr>"
  using assms
  by (auto simp: executeFlashLoan_def accepted_def Let_def split: sum.splits option.splits)

lemma executeFlashLoan_state:
  assumes "flashbotsProvider s" and "nonce s = Some n"
  shows "fst (snd (executeFlashLoan w tx profit s)) =
           (if accepted w then s\<lparr>nonce := Some (n + 1)\<rparr> else s)"
  using assms
  by (auto simp: executeFlashLoan_def accepted_def Let_def split: sum.splits option.splits)

lemma executeFlashLoan_accepted:
  assumes "flashbotsProvider s" and "nonce s = Some n" and "accepted w"
  shows "fst (executeFlashLoan w tx profit s) = Inr ()
         \<and> sent_nonces (snd (snd (executeFlashLoan w tx profit s))) = [Some n]"
  using assms
  by (auto simp: executeFlashLoan_def accepted_def Let_def sent_nonces_def
      split: sum.splits option.splits)

lemma run_Nil: "run p [] = p"
  by (simp add: run_def)

lemma run_Cons: "run p (l # ls) = run (step p l) ls"
  by (simp add: run_def)

lemma sent_nonces_Nil: "sent_nonces [] = []"
  by (simp add: sent_nonces_def)

lemma sent_nonces_Cons:
  "sent_nonces (c # cs) =
     (case c of SendBundle bundle _ \<Rightarrow> map tx_nonce bundle | _ \<Rightarrow> []) @ sent_nonces cs"
  by (simp add: sent_nonces_def)

lemma sent_nonces_append: "sent_nonces (cs @ ds) = sent_nonces cs @ sent_nonces ds"
  by (simp add: sent_nonces_def)

section \<open>The scorer\<close>

lemma profitable_above_floor:
  "analyzeOpportunity tx fetchA fetchB rnd = Inr opp \<Longrightarrow> isProfitable opp \<Longrightarrow>
     MIN_PROFIT_THRESHOLD < estimatedProfit opp"
  by (auto simp: analyzeOpportunity_def Let_def split: sum.splits prod.splits if_splits)

section \<open>The listener run at once and the listener resumed step by step\<close>

text \<open>
  Resuming a fresh listener with the answers of a world, with nothing else in between,
  gives what \<open>onPending\<close> computes; the first entry of the trace is written when the
  hash arrives.
\<close>

lemma drive_Finished: "drive (Finished r) rs s = (Finished r, s, [])"
  by (induction rs) auto

lemma executeFlashLoan_drive:
  "(case start_executeFlashLoan tx p s of
      (t, s0, c0) \<Rightarrow>
        (case drive t (loan_answers w) s0 of (t', s', cs) \<Rightarrow> (t', s', c0 @ cs)))
   = (case executeFlashLoan w tx p s of (r, s', cs) \<Rightarrow> (Finished r, s', cs))"
  by (simp add: start_executeFlashLoan_def executeFlashLoan_def loan_answers_def Let_def
      drive_Finished split: sum.splits option.splits)

lemma gate_drive:
  "(case start_gate tx opp s of
      (t, s0, c0) \<Rightarrow>
        (case drive t (loan_answers w) s0 of (t', s', cs) \<Rightarrow> (t', s', c0 @ cs)))
   = (case gate w tx opp s of (r, s', cs) \<Rightarrow> (Finished r, s', cs))"
proof (cases "isProfitable opp \<and> aiScore opp > AI_THRESHOLD")
  case True
  obtain t s0 c0 where st: "start_executeFlashLoan tx (estimatedProfit opp) s = (t, s0, c0)"
    by (cases "start_executeFlashLoan tx (estimatedProfit opp) s") auto
  obtain t' s' cs where dr: "drive t (loan_answers w) s0 = (t', s', cs)"
    by (cases "drive t (loan_answers w) s0") auto
  obtain r s'' cs'' where ex: "executeFlashLoan w tx (estimatedProfit opp) s = (r, s'', cs'')"
    by (cases "executeFlashLoan w tx (estimatedProfit opp) s") auto
  from executeFlashLoan_drive [where tx = tx and p = "estimatedProfit opp" and s = s and w = w]
  have "t' = Finished r \<and> s' = s'' \<and> c0 @ cs = cs''"
    by (simp add: st dr ex)
  with True show ?thesis
    by (simp add: start_gate_def gate_def st dr ex)
next
  case False
  then show ?thesis
    by (auto simp: start_gate_def gate_def drive_Finished)
qed

lemma onPending_drive:
  "drive (AwaitTransaction txHash) (answers w) s =
     (case onPending w txHash s of (r, s', cs) \<Rightarrow> (Finished r, s', tl cs))"
proof (cases "\<exists>tx opp. getTransaction_r w = Inr (Some tx) \<and> has_data tx
    \<and> analyzeOpportunity tx (getReservesA_r w) (getReservesB_r w) (random_r w) = Inr opp")
  case True
  then obtain tx opp where tx: "getTransaction_r w = Inr (Some tx)" "has_data tx"
     "analyzeOpportunity tx (getReservesA_r w) (getReservesB_r w) (random_r w) = Inr opp"
    by blast
  obtain t s0 c0 where st: "start_gate tx opp s = (t, s0, c0)"
    by (cases "start_gate tx opp s") auto
  obtain t' s' cs where dr: "drive t (loan_answers w) s0 = (t', s', cs)"
    by (cases "drive t (loan_answers w) s0") auto
  obtain r s'' cs'' where g: "gate w tx opp s = (r, s'', cs'')"
    by (cases "gate w tx opp s") auto
  from gate_drive [where tx = tx and opp = opp and s = s and w = w]
  have "t' = Finished r \<and> s' = s'' \<and> c0 @ cs = cs''"
    by (simp add: st dr g)
  then show ?thesis
    by (simp add: answers_def onPending_def Let_def tx st dr g)
next
  case False
  then show ?thesis
    by (auto simp: answers_def onPending_def Let_def drive_Finished
        split: sum.splits option.splits)
qed

section \<open>The nonce under interleaving\<close>

lemma resync_nonce: "nonce s = Some n \<Longrightarrow> nonce (resync c s) = Some (max n c)"
  by (simp add: resync_def max_def)

lemma start_executeFlashLoan_state: "start_executeFlashLoan tx p s = (t, s', cs) \<Longrightarrow> s' = s"
  by (auto simp: start_executeFlashLoan_def Let_def split: if_splits)

lemma start_gate_state: "start_gate tx opp s = (t, s', cs) \<Longrightarrow> s' = s"
  by (auto simp: start_gate_def split: if_splits prod.splits dest: start_executeFlashLoan_state)

lemma resume_nonce:
  assumes "nonce s = Some n" and "resume t r s = (t', s', cs)"
  shows "\<exists>n'. nonce s' = Some n' \<and> n \<le> n'"
  using assms
  by (cases "(t, r, s)" rule: resume.cases)
     (auto simp: Let_def resync_nonce split: sum.splits option.splits if_splits
        dest: start_gate_state)

lemma step_nonce:
  assumes "nonce (exec p) = Some n"
  shows "\<exists>n'. nonce (exec (step p l)) = Some n' \<and> n \<le> n'"
proof (cases l)
  case (Settle i r)
  show ?thesis
  proof (cases "i < length (tasks p)")
    case True
    obtain t s cs where res: "resume (tasks p ! i) r (exec p) = (t, s, cs)"
      by (cases "resume (tasks p ! i) r (exec p)") auto
    from resume_nonce [OF assms res] True res Settle show ?thesis by simp
  next
    case False
    with assms Settle show ?thesis by simp
  qed
qed (use assms in simp_all)

lemma step_other:
  assumes "\<not> (\<exists>i bundle targetBlock. l = Settle i (Sent (Inr ())) \<and> i < length (tasks p)
                \<and> tasks p ! i = AwaitSend bundle targetBlock)"
    and "\<not> (\<exists>i reported. l = Settle i (TransactionCount (Inr reported)) \<and> i < length (tasks p)
                \<and> tasks p ! i = AwaitTransactionCount)"
  shows "exec (step p l) = exec p"
proof (cases l)
  case (Settle i r)
  show ?thesis
  proof (cases "i < length (tasks p)")
    case True
    obtain t s cs where res: "resume (tasks p ! i) r (exec p) = (t, s, cs)"
      by (cases "resume (tasks p ! i) r (exec p)") auto
    from assms Settle True have
      a: "\<And>bundle targetBlock. tasks p ! i = AwaitSend bundle targetBlock \<Longrightarrow> r \<noteq> Sent (Inr ())"
      and b: "\<And>reported. tasks p ! i = AwaitTransactionCount \<Longrightarrow> r \<noteq> TransactionCount (Inr reported)"
      by auto
    from res a b have "s = exec p"
      by (cases "(tasks p ! i, r, exec p)" rule: resume.cases)
         (auto simp: Let_def split: sum.splits option.splits if_splits dest: start_gate_state)
    with Settle True res show ?thesis by simp
  next
    case False
    with Settle show ?thesis by simp
  qed
qed simp_all

lemma run_nonce:
  "nonce (exec p) = Some n \<Longrightarrow> \<exists>n'. nonce (exec (run p ls)) = Some n' \<and> n \<le> n'"
proof (induction ls arbitrary: p n)
  case Nil
  then show ?case by (simp add: run_Nil)
next
  case (Cons l ls)
  from step_nonce [OF Cons.prems, of l]
  obtain m where m: "nonce (exec (step p l)) = Some m" "n \<le> m"
    by blast
  from Cons.IH [OF m(1)]
  obtain n' where "nonce (exec (run (step p l) ls)) = Some n'" "m \<le> n'"
    by blast
  with m(2) show ?case by (auto simp: run_Cons)
qed

section \<open>Serial schedules\<close>













section \<open>Claims\<close>

subsection \<open>C1: the tracked nonce never decreases\<close>

text \<open>
  C1. From any point at which the nonce is defined, whatever hashes arrive, whatever
  ticks of the resync timer occur and however the promises settle, the tracked nonce
  is still defined afterwards and not below its earlier value. Every single step is
  accounted for: the step in which a listener's \<open>sendBundle\<close> resolves raises the
  nonce by exactly 1, the step in which a resync receives the chain's count sets it to
  the larger of the two, and every other step (a hash or a tick arriving, any other
  promise resolving, any promise rejecting, a simulation reporting an error) leaves
  the executor as it was. For a whole submission attempt run without interruption:
  it raises the nonce by exactly 1 when every call resolves and the simulation is
  clean, having handed one bundle at the old nonce to \<open>sendBundle\<close>, and leaves the
  executor unchanged in every other case.
\<close>

theorem nonce_monotone:
  assumes "nonce (exec p) = Some n"
  shows "(\<exists>n'. nonce (exec (run p ls)) = Some n' \<and> n \<le> n')
       \<and> (\<forall>i bundle targetBlock.
            i < length (tasks p) \<and> tasks p ! i = AwaitSend bundle targetBlock \<longrightarrow>
              exec (step p (Settle i (Sent (Inr ())))) = (exec p)\<lparr>nonce := Some (n + 1)\<rparr>)
       \<and> (\<forall>i reported.
            i < length (tasks p) \<and> tasks p ! i = AwaitTransactionCount \<longrightarrow>
              exec (step p (Settle i (TransactionCount (Inr reported)))) =
                (exec p)\<lparr>nonce := Some (max n reported)\<rparr>)
       \<and> (\<forall>l. \<not> (\<exists>i bundle targetBlock. l = Settle i (Sent (Inr ())) \<and> i < length (tasks p)
                     \<and> tasks p ! i = AwaitSend bundle targetBlock)
              \<and> \<not> (\<exists>i reported. l = Settle i (TransactionCount (Inr reported))
                     \<and> i < length (tasks p) \<and> tasks p ! i = AwaitTransactionCount) \<longrightarrow>
              exec (step p l) = exec p)
       \<and> (flashbotsProvider (exec p) \<longrightarrow>
            fst (snd (executeFlashLoan w tx profit (exec p))) =
              (if accepted w then (exec p)\<lparr>nonce := Some (n + 1)\<rparr> else exec p)
            \<and> (accepted w \<longrightarrow>
                 fst (executeFlashLoan w tx profit (exec p)) = Inr ()
                 \<and> sent_nonces (snd (snd (executeFlashLoan w tx profit (exec p)))) = [Some n]))"
proof -
  have resync: "(exec p)\<lparr>nonce := Some (max n reported)\<rparr> = resync reported (exec p)" for reported
    using assms by (simp add: resync_def max_def)
  show ?thesis
    using assms run_nonce [OF assms, of ls] step_other [of _ p]
      executeFlashLoan_state [OF _ assms, of w tx profit]
      executeFlashLoan_accepted [OF _ assms, of w tx profit]
    by (simp add: resync)
qed

theorem nonce_monotone_witness:
  "nonce (exec waiting) = Some 7
   \<and> nonce (exec (run waiting [Settle 0 (Sent (Inr ())), Tick, Settle 2 (TransactionCount (Inr 5)),
                             Settle 1 (Simulated (simulate_r reverting_world))])) = Some 8
   \<and> exec (step waiting (Settle 0 (Sent (Inr ())))) = ready\<lparr>nonce := Some 8\<rparr>
   \<and> exec (step waiting (Settle 2 (TransactionCount (Inr 12)))) = ready\<lparr>nonce := Some 12\<rparr>
   \<and> exec (step waiting (Settle 2 (TransactionCount (Inr 5)))) = ready
   \<and> exec (step waiting (Settle 1 (Simulated (simulate_r reverting_world)))) = ready
   \<and> exec (step waiting (Settle 3 (Signed (Inr ())))) = ready
   \<and> exec (step waiting (Settle 0 (Sent (Inl (Rejection ''relay down''))))) = ready
   \<and> accepted clean_world \<and> \<not> accepted reverting_world
   \<and> fst (snd (executeFlashLoan clean_world tx_aa (10 ^ 37) ready)) = ready\<lparr>nonce := Some 8\<rparr>
   \<and> sent_nonces (snd (snd (executeFlashLoan clean_world tx_aa (10 ^ 37) ready))) = [Some 7]
   \<and> fst (snd (executeFlashLoan reverting_world tx_aa (10 ^ 37) ready)) = ready"
proof -
  let ?ls = "[Settle 0 (Sent (Inr ())), Tick, Settle 2 (TransactionCount (Inr 5)),
              Settle 1 (Simulated (simulate_r reverting_world))]"
  have h: "nonce (exec waiting) = Some 7"
    by (simp add: waiting_def ready_def)
  have e: "exec waiting = ready" and f: "flashbotsProvider (exec waiting)"
    by (simp_all add: waiting_def ready_def)
  have r: "nonce (exec (run waiting ?ls)) = Some 8"
    by (simp add: run_Nil run_Cons waiting_def ready_def reverting_world_def clean_world_def
        resync_def)
  have a: "accepted clean_world" and b: "\<not> accepted reverting_world"
    by (simp_all add: accepted_def clean_world_def reverting_world_def)
  note clean = nonce_monotone [OF h, where ls = ?ls and w = clean_world and tx = tx_aa
      and profit = "10 ^ 37"]
  note reverting = nonce_monotone [OF h, where ls = ?ls and w = reverting_world and tx = tx_aa
      and profit = "10 ^ 37"]
  have sent: "exec (step waiting (Settle 0 (Sent (Inr ())))) = ready\<lparr>nonce := Some 8\<rparr>"
    using clean [THEN conjunct2, THEN conjunct1, rule_format, of 0 "bundle7 tx_aa" 101]
    by (simp add: waiting_def)
  have counted: "exec (step waiting (Settle 2 (TransactionCount (Inr 12)))) = ready\<lparr>nonce := Some 12\<rparr>"
    using clean [THEN conjunct2, THEN conjunct2, THEN conjunct1, rule_format, of 2 12]
    by (simp add: waiting_def)
  have others: "exec (step waiting (Settle 2 (TransactionCount (Inr 5)))) = ready
      \<and> exec (step waiting (Settle 1 (Simulated (simulate_r reverting_world)))) = ready
      \<and> exec (step waiting (Settle 3 (Signed (Inr ())))) = ready
      \<and> exec (step waiting (Settle 0 (Sent (Inl (Rejection ''relay down''))))) = ready"
    by (simp add: waiting_def ready_def reverting_world_def clean_world_def resync_def)
  have submitted: "fst (snd (executeFlashLoan clean_world tx_aa (10 ^ 37) ready))
        = ready\<lparr>nonce := Some 8\<rparr>
      \<and> sent_nonces (snd (snd (executeFlashLoan clean_world tx_aa (10 ^ 37) ready))) = [Some 7]"
    using clean [THEN conjunct2, THEN conjunct2, THEN conjunct2, THEN conjunct2, THEN mp, OF f] a
    by (simp add: e)
  have rejected: "fst (snd (executeFlashLoan reverting_world tx_aa (10 ^ 37) ready)) = ready"
    using reverting [THEN conjunct2, THEN conjunct2, THEN conjunct2, THEN conjunct2, THEN mp, OF f] b
    by (simp add: e)
  from h r sent counted others a b submitted rejected show ?thesis
    by simp
qed

subsection \<open>C2: bundles and nonces when listeners overlap\<close>




text \<open>
  Runs in which every listener and every resync finishes before the next one starts
  are of this kind; for them the trace of each listener shows the same.
\<close>

lemma executeFlashLoan_committed:
  assumes "nonce s = Some n" and "executeFlashLoan w tx p s = (r, s', cs)"
  shows "(s' = s \<and> committed (r, cs) = [])
       \<or> (nonce s' = Some (Suc n) \<and> committed (r, cs) = [Some n])"
  using assms
  by (auto simp: executeFlashLoan_def committed_def Let_def sent_nonces_Nil sent_nonces_Cons
      sent_nonces_append split: sum.splits option.splits if_splits)

lemma gate_committed:
  assumes "nonce s = Some n" and "gate w tx opp s = (r, s', cs)"
  shows "(s' = s \<and> committed (r, cs) = [])
       \<or> (nonce s' = Some (Suc n) \<and> committed (r, cs) = [Some n])"
proof (cases "isProfitable opp \<and> aiScore opp > AI_THRESHOLD")
  case True
  obtain r0 s0 cs0 where e: "executeFlashLoan w tx (estimatedProfit opp) s = (r0, s0, cs0)"
    by (cases "executeFlashLoan w tx (estimatedProfit opp) s") auto
  from executeFlashLoan_committed [OF assms(1) e] True e assms(2) show ?thesis
    by (auto simp: gate_def committed_def sent_nonces_Cons)
next
  case False
  with assms(2) show ?thesis
    by (auto simp: gate_def committed_def sent_nonces_Nil sent_nonces_Cons split: if_splits)
qed

lemma onPending_committed:
  assumes "nonce s = Some n" and "onPending w h s = (r, s', cs)"
  shows "(s' = s \<and> committed (r, cs) = [])
       \<or> (nonce s' = Some (Suc n) \<and> committed (r, cs) = [Some n])"
proof (cases "\<exists>tx opp. getTransaction_r w = Inr (Some tx) \<and> has_data tx
    \<and> analyzeOpportunity tx (getReservesA_r w) (getReservesB_r w) (random_r w) = Inr opp")
  case True
  then obtain tx opp where tx: "getTransaction_r w = Inr (Some tx)" "has_data tx"
     "analyzeOpportunity tx (getReservesA_r w) (getReservesB_r w) (random_r w) = Inr opp"
    by blast
  obtain r0 s0 cs0 where g: "gate w tx opp s = (r0, s0, cs0)"
    by (cases "gate w tx opp s") auto
  from gate_committed [OF assms(1) g] tx g assms(2) show ?thesis
    by (auto simp: onPending_def Let_def committed_def sent_nonces_Cons sent_nonces_append)
next
  case False
  with assms(2) show ?thesis
    by (auto simp: onPending_def Let_def committed_def sent_nonces_Nil sent_nonces_Cons
        split: sum.splits option.splits if_splits)
qed

lemma handle_committed:
  assumes "nonce s = Some n" and "handle ev s = (r, s', cs)"
  shows "\<exists>n'. nonce s' = Some n' \<and> n \<le> n'
           \<and> (committed (r, cs) = [] \<or> (committed (r, cs) = [Some n] \<and> n < n'))"
proof (cases ev)
  case (Hash w h)
  with onPending_committed [OF assms(1), of w h r s' cs] assms show ?thesis by auto
next
  case (Resync c)
  with assms show ?thesis
    by (auto simp: periodicResync_def resync_def committed_def sent_nonces_Nil sent_nonces_Cons
        split: sum.splits if_splits)
qed

lemma run_sequential_submitted:
  "nonce s = Some n \<Longrightarrow> run_sequential evs s = (s', outs) \<Longrightarrow>
     \<exists>n' ns. nonce s' = Some n' \<and> n \<le> n' \<and> submitted outs = map Some ns
        \<and> sorted_wrt (<) ns \<and> (\<forall>k\<in>set ns. n \<le> k \<and> k < n')"
proof (induction evs arbitrary: s n s' outs)
  case Nil
  then show ?case by (auto simp: submitted_def)
next
  case (Cons ev evs)
  obtain r s1 cs where h: "handle ev s = (r, s1, cs)"
    by (cases "handle ev s") auto
  obtain s2 outs' where rest: "run_sequential evs s1 = (s2, outs')"
    by (cases "run_sequential evs s1") auto
  from Cons.prems(2) h rest have eq: "s' = s2" "outs = (r, cs) # outs'"
    by auto
  from handle_committed [OF Cons.prems(1) h] obtain m where
    m: "nonce s1 = Some m" "n \<le> m"
       "committed (r, cs) = [] \<or> (committed (r, cs) = [Some n] \<and> n < m)"
    by blast
  from Cons.IH [OF m(1) rest] obtain n' ns where
    ih: "nonce s2 = Some n'" "m \<le> n'" "submitted outs' = map Some ns" "sorted_wrt (<) ns"
        "\<forall>k\<in>set ns. m \<le> k \<and> k < n'"
    by blast
  from m(3) show ?case
  proof
    assume "committed (r, cs) = []"
    with ih m(2) eq have "nonce s' = Some n' \<and> n \<le> n' \<and> submitted outs = map Some ns
        \<and> sorted_wrt (<) ns \<and> (\<forall>k\<in>set ns. n \<le> k \<and> k < n')"
      by (auto simp: submitted_def)
    then show ?thesis by blast
  next
    assume c: "committed (r, cs) = [Some n] \<and> n < m"
    with ih m(2) eq have "nonce s' = Some n' \<and> n \<le> n' \<and> submitted outs = map Some (n # ns)
        \<and> sorted_wrt (<) (n # ns) \<and> (\<forall>k\<in>set (n # ns). n \<le> k \<and> k < n')"
      by (auto simp: submitted_def)
    then show ?thesis by blast
  qed
qed

lemma sequential_submissions_distinct:
  assumes "nonce s = Some n" and "run_sequential evs s = (s', outs)"
  shows "\<exists>n' ns. nonce s' = Some n' \<and> n \<le> n' \<and> submitted outs = map Some ns
           \<and> sorted_wrt (<) ns \<and> distinct (submitted outs)
           \<and> (\<forall>k\<in>set ns. n \<le> k \<and> k < n')"
proof -
  from run_sequential_submitted [OF assms] obtain n' ns where
    *: "nonce s' = Some n'" "n \<le> n'" "submitted outs = map Some ns" "sorted_wrt (<) ns"
       "\<forall>k\<in>set ns. n \<le> k \<and> k < n'"
    by blast
  from *(4) have "distinct ns"
    by (simp add: strict_sorted_iff)
  then have "distinct (map Some ns)"
    by (simp add: distinct_map)
  with * show ?thesis by auto
qed

lemma four_events_run:
  "nonce (fst (run_sequential four_events ready)) = Some 21
   \<and> submitted (snd (run_sequential four_events ready)) = [Some 7, Some 20]"
  by (simp add: four_events_def ready_def onPending_def gate_def executeFlashLoan_def
      periodicResync_def resync_def clean_world_def reverting_world_def has_data_def tx_aa_def
      analyze_venues AI_THRESHOLD_def Let_def submitted_def committed_def sent_nonces_def)

subsection \<open>C3: the confidence gate\<close>

text \<open>
  C3. Once the scorer has answered, the listener forwards the opportunity exactly when
  it is marked profitable and its score is strictly above 0.85. Forwarding is the run
  of \<open>executeFlashLoan\<close> on the transaction and the estimated profit: the listener's
  result, state and trace are those of that run, after the console line for the
  opportunity; in a ready executor and a world that accepts the submission it hands
  the bundle for the capped loan at the current nonce to \<open>sendBundle\<close> and raises
  the nonce by 1. Not forwarding is returning with the executor unchanged and nothing
  but console lines. A profitable opportunity with score 0.85 is not forwarded; one
  with score 0.851 is.
\<close>

theorem confidence_gate:
  "(isProfitable opp \<and> aiScore opp > 85 / 100 \<longrightarrow>
      gate w tx opp s =
        (case executeFlashLoan w tx (estimatedProfit opp) s of
           (r, s', cs) \<Rightarrow> (r, s', Log_Opportunity (estimatedProfit opp) (aiScore opp) # cs)))
   \<and> (\<not> (isProfitable opp \<and> aiScore opp > 85 / 100) \<longrightarrow>
        fst (gate w tx opp s) = Inr () \<and> fst (snd (gate w tx opp s)) = s
        \<and> set (snd (snd (gate w tx opp s)))
             \<subseteq> {Log_Opportunity (estimatedProfit opp) (aiScore opp), Log_AIFilter (aiScore opp)})
   \<and> ((\<exists>p. Call_executeFlashLoan tx p \<in> set (snd (snd (gate w tx opp s))))
        \<longleftrightarrow> isProfitable opp \<and> aiScore opp > 85 / 100)
   \<and> (isProfitable opp \<and> aiScore opp > 85 / 100 \<and> flashbotsProvider s \<and> nonce s = Some n
        \<and> accepted w \<and> getBlockNumber_r w = Inr blockNumber \<longrightarrow>
        SendBundle [\<lparr>transaction = \<lparr>token = TARGET_TOKEN_ADDRESS,
                                     amount = loanAmount (estimatedProfit opp), payload = data tx\<rparr>,
                     tx_nonce = Some n, gasLimit = 3000000\<rparr>] (blockNumber + 1)
          \<in> set (snd (snd (gate w tx opp s)))
        \<and> fst (snd (gate w tx opp s)) = s\<lparr>nonce := Some (n + 1)\<rparr>)
   \<and> gate w tx \<lparr>isProfitable = True, estimatedProfit = e, aiScore = 85 / 100\<rparr> s
        = (Inr (), s, [Log_Opportunity e (85 / 100), Log_AIFilter (85 / 100)])
   \<and> gate w tx \<lparr>isProfitable = True, estimatedProfit = e, aiScore = 851 / 1000\<rparr> s
        = (case executeFlashLoan w tx e s of
             (r, s', cs) \<Rightarrow> (r, s', Log_Opportunity e (851 / 1000) # cs))"
proof -
  have entry: "Call_executeFlashLoan tx p \<in> set (snd (snd (executeFlashLoan w tx p s)))" for p
    by (simp add: executeFlashLoan_def Let_def split: sum.splits option.splits)
  have marker: "(\<exists>p. Call_executeFlashLoan tx p \<in> set (snd (snd (gate w tx opp s))))
        \<longleftrightarrow> isProfitable opp \<and> aiScore opp > 85 / 100"
    using entry [of "estimatedProfit opp"]
    by (auto simp: gate_def AI_THRESHOLD_def split: prod.splits)
  have sends: "SendBundle [\<lparr>transaction = \<lparr>token = TARGET_TOKEN_ADDRESS,
                                     amount = loanAmount (estimatedProfit opp), payload = data tx\<rparr>,
                     tx_nonce = Some n, gasLimit = 3000000\<rparr>] (blockNumber + 1)
          \<in> set (snd (snd (gate w tx opp s)))
        \<and> fst (snd (gate w tx opp s)) = s\<lparr>nonce := Some (n + 1)\<rparr>"
    if "isProfitable opp" "aiScore opp > 85 / 100" "flashbotsProvider s" "nonce s = Some n"
      "accepted w" "getBlockNumber_r w = Inr blockNumber"
    using that executeFlashLoan_sends [OF that(3,4,5,6), of "estimatedProfit opp" tx]
    by (auto simp: gate_def AI_THRESHOLD_def split: prod.splits)
  have rest: "(isProfitable opp \<and> aiScore opp > 85 / 100 \<longrightarrow>
      gate w tx opp s =
        (case executeFlashLoan w tx (estimatedProfit opp) s of
           (r, s', cs) \<Rightarrow> (r, s', Log_Opportunity (estimatedProfit opp) (aiScore opp) # cs)))
   \<and> (\<not> (isProfitable opp \<and> aiScore opp > 85 / 100) \<longrightarrow>
        fst (gate w tx opp s) = Inr () \<and> fst (snd (gate w tx opp s)) = s
        \<and> set (snd (snd (gate w tx opp s)))
             \<subseteq> {Log_Opportunity (estimatedProfit opp) (aiScore opp), Log_AIFilter (aiScore opp)})
   \<and> gate w tx \<lparr>isProfitable = True, estimatedProfit = e, aiScore = 85 / 100\<rparr> s
        = (Inr (), s, [Log_Opportunity e (85 / 100), Log_AIFilter (85 / 100)])
   \<and> gate w tx \<lparr>isProfitable = True, estimatedProfit = e, aiScore = 851 / 1000\<rparr> s
        = (case executeFlashLoan w tx e s of
             (r, s', cs) \<Rightarrow> (r, s', Log_Opportunity e (851 / 1000) # cs))"
    by (auto simp: gate_def AI_THRESHOLD_def)
  from marker sends rest show ?thesis
    by blast
qed

theorem confidence_gate_witness:
  "gate clean_world tx_aa \<lparr>isProfitable = True, estimatedProfit = 10 ^ 37, aiScore = 85 / 100\<rparr> ready
     = (Inr (), ready, [Log_Opportunity (10 ^ 37) (85 / 100), Log_AIFilter (85 / 100)])
   \<and> gate clean_world tx_aa \<lparr>isProfitable = False, estimatedProfit = 10 ^ 37, aiScore = 96 / 100\<rparr> ready
     = (Inr (), ready, [])
   \<and> accepted clean_world
   \<and> SendBundle (bundle7 tx_aa) 101
       \<in> set (snd (snd (gate clean_world tx_aa
            \<lparr>isProfitable = True, estimatedProfit = 10 ^ 37, aiScore = 851 / 1000\<rparr> ready)))
   \<and> fst (snd (gate clean_world tx_aa
            \<lparr>isProfitable = True, estimatedProfit = 10 ^ 37, aiScore = 851 / 1000\<rparr> ready))
       = ready\<lparr>nonce := Some 8\<rparr>"
proof -
  let ?at = "\<lparr>isProfitable = True, estimatedProfit = 10 ^ 37, aiScore = 85 / 100\<rparr>"
  let ?above = "\<lparr>isProfitable = True, estimatedProfit = 10 ^ 37, aiScore = 851 / 1000\<rparr>"
  let ?not = "\<lparr>isProfitable = False, estimatedProfit = 10 ^ 37, aiScore = 96 / 100\<rparr>"
  note g = confidence_gate [where w = clean_world and tx = tx_aa and s = ready and n = 7
      and blockNumber = 100 and e = "10 ^ 37"]
  have a: "accepted clean_world"
    by (simp add: accepted_def clean_world_def)
  have at: "gate clean_world tx_aa ?at ready
     = (Inr (), ready, [Log_Opportunity (10 ^ 37) (85 / 100), Log_AIFilter (85 / 100)])"
    using g [where opp = ?at, THEN conjunct2, THEN conjunct2, THEN conjunct2, THEN conjunct2,
        THEN conjunct1]
    by simp
  have nope: "gate clean_world tx_aa ?not ready = (Inr (), ready, [])"
    by (simp add: gate_def)
  have above: "SendBundle (bundle7 tx_aa) 101 \<in> set (snd (snd (gate clean_world tx_aa ?above ready)))
      \<and> fst (snd (gate clean_world tx_aa ?above ready)) = ready\<lparr>nonce := Some 8\<rparr>"
    using g [where opp = ?above, THEN conjunct2, THEN conjunct2, THEN conjunct2, THEN conjunct1] a
    by (simp add: ready_def clean_world_def bundle7_def loanAmount_large)
  from at nope a above show ?thesis
    by simp
qed

subsection \<open>C4: loan sizing\<close>

text \<open>
  C4. The loan amount is the smaller of ten times the estimated profit and the cap of
  100000 ether in wei; above the cap it is the cap; it never exceeds the cap; the
  request handed to \<open>populateTransaction\<close> carries this amount; and for an opportunity
  the scorer marks profitable the estimate is above the profit floor, so the amount is
  positive.
\<close>

theorem loan_sizing:
  "loanAmount p = min (p * 10) MAX_LOAN_WEI
   \<and> (p * 10 > MAX_LOAN_WEI \<longrightarrow> loanAmount p = MAX_LOAN_WEI)
   \<and> loanAmount p \<le> MAX_LOAN_WEI
   \<and> (executeFlashLoan w tx p s = (r, s', cs) \<and> PopulateTransaction req \<in> set cs \<longrightarrow>
        amount req = min (p * 10) MAX_LOAN_WEI)
   \<and> (analyzeOpportunity tx fetchA fetchB rnd = Inr opp \<and> isProfitable opp \<longrightarrow>
        MIN_PROFIT_THRESHOLD < estimatedProfit opp
        \<and> 0 < loanAmount (estimatedProfit opp)
        \<and> loanAmount (estimatedProfit opp) \<le> MAX_LOAN_WEI)"
proof -
  have above: "0 < loanAmount q" if "MIN_PROFIT_THRESHOLD < q" for q
    using that
    by (simp add: loanAmount_def Let_def MIN_PROFIT_THRESHOLD_def MAX_LOAN_WEI_def
        MAX_LOAN_AMOUNT_ETH_def)
  have cap: "loanAmount q \<le> MAX_LOAN_WEI" for q
    by (simp add: loanAmount_def Let_def)
  have request: "amount req = loanAmount p"
    if "executeFlashLoan w tx p s = (r, s', cs)" and "PopulateTransaction req \<in> set cs"
    using that
    by (auto simp: executeFlashLoan_def Let_def split: sum.splits option.splits if_splits)
  show ?thesis
    using above cap request profitable_above_floor [of tx fetchA fetchB rnd opp]
    by (auto simp: loanAmount_min)
qed

text \<open>
  The two scenarios of the specification (a profit of 0.5 gives a loan of 5, a profit
  of 20000 gives the cap of 100000, in ether), the request built for the opportunity
  of the two venues, and that opportunity.
\<close>

theorem loan_sizing_witness:
  "loanAmount (5 * 10 ^ 17) = 5 * 10 ^ 18
   \<and> 20000 * 10 ^ 18 * 10 > MAX_LOAN_WEI
   \<and> loanAmount (20000 * 10 ^ 18) = 100000 * 10 ^ 18
   \<and> PopulateTransaction (transaction (hd (bundle7 tx_aa)))
       \<in> set (snd (snd (executeFlashLoan reverting_world tx_aa (10 ^ 37) ready)))
   \<and> amount (transaction (hd (bundle7 tx_aa))) = min (10 ^ 37 * 10) MAX_LOAN_WEI
   \<and> analyzeOpportunity tx_aa (Inr venueA) (Inr venueB) (9 / 10) =
       Inr \<lparr>isProfitable = True, estimatedProfit = 10 ^ 37, aiScore = 96 / 100\<rparr>
   \<and> MIN_PROFIT_THRESHOLD < 10 ^ 37
   \<and> 0 < loanAmount (10 ^ 37) \<and> loanAmount (10 ^ 37) \<le> MAX_LOAN_WEI"
proof -
  have small: "loanAmount (5 * 10 ^ 17) = 5 * 10 ^ 18"
    using loan_sizing [of "5 * 10 ^ 17"]
    by (simp add: MAX_LOAN_WEI_def MAX_LOAN_AMOUNT_ETH_def)
  have large: "20000 * 10 ^ 18 * 10 > MAX_LOAN_WEI
      \<and> loanAmount (20000 * 10 ^ 18) = 100000 * 10 ^ 18"
    using loan_sizing [of "20000 * 10 ^ 18"]
    by (simp add: MAX_LOAN_WEI_def MAX_LOAN_AMOUNT_ETH_def)
  have request: "PopulateTransaction (transaction (hd (bundle7 tx_aa)))
       \<in> set (snd (snd (executeFlashLoan reverting_world tx_aa (10 ^ 37) ready)))"
    by (simp add: reverting_run)
  have floor: "MIN_PROFIT_THRESHOLD < 10 ^ 37"
    by (simp add: MIN_PROFIT_THRESHOLD_def)
  show ?thesis
    using small large request floor analyze_venues [of tx_aa]
      loan_sizing [of "10 ^ 37" reverting_world tx_aa ready
        "fst (executeFlashLoan reverting_world tx_aa (10 ^ 37) ready)"
        "fst (snd (executeFlashLoan reverting_world tx_aa (10 ^ 37) ready))"
        "snd (snd (executeFlashLoan reverting_world tx_aa (10 ^ 37) ready))"
        "transaction (hd (bundle7 tx_aa))" "Inr venueA" "Inr venueB" "9 / 10"
        "\<lparr>isProfitable = True, estimatedProfit = 10 ^ 37, aiScore = 96 / 100\<rparr>"]
    by simp
qed

subsection \<open>C5: the simulation gate\<close>

text \<open>
  C5. When the simulation answers with an error, a run of \<open>executeFlashLoan\<close> leaves
  the executor, and with it the nonce, as it was and never calls \<open>sendBundle\<close>; and if
  the run got as far as calling the simulation, it returns without throwing, its last
  act being the console line that reports the error.
\<close>

theorem simulation_gate:
  assumes "simulate_r w = Inr simulationResult" and "error simulationResult = Some err"
    and "executeFlashLoan w tx p s = (r, s', cs)"
  shows "s' = s \<and> (\<forall>bundle targetBlock. SendBundle bundle targetBlock \<notin> set cs)
       \<and> ((\<exists>bundle targetBlock. Simulate bundle targetBlock \<in> set cs) \<longrightarrow>
            r = Inr () \<and> last cs = Log_SimulationFailed (message err))"
  using assms
  by (auto simp: executeFlashLoan_def Let_def split: sum.splits option.splits if_splits)

theorem simulation_gate_witness:
  "simulate_r reverting_world = Inr \<lparr>error = Some \<lparr>message = ''execution reverted''\<rparr>\<rparr>
   \<and> fst (executeFlashLoan reverting_world tx_aa (10 ^ 37) ready) = Inr ()
   \<and> fst (snd (executeFlashLoan reverting_world tx_aa (10 ^ 37) ready)) = ready
   \<and> Simulate (bundle7 tx_aa) 101
       \<in> set (snd (snd (executeFlashLoan reverting_world tx_aa (10 ^ 37) ready)))
   \<and> SendBundle (bundle7 tx_aa) 101
       \<notin> set (snd (snd (executeFlashLoan reverting_world tx_aa (10 ^ 37) ready)))"
proof -
  have sim: "simulate_r reverting_world = Inr \<lparr>error = Some \<lparr>message = ''execution reverted''\<rparr>\<rparr>"
    by (simp add: reverting_world_def)
  have err: "error \<lparr>error = Some \<lparr>message = ''execution reverted''\<rparr>\<rparr>
      = Some \<lparr>message = ''execution reverted''\<rparr>"
    by simp
  show ?thesis
    using sim simulation_gate [OF sim err reverting_run]
    by (simp add: reverting_run)
qed

subsection \<open>C6: a failed read of the reserves\<close>

text \<open>
  C6. If the read of either venue's reserves rejects, the scorer returns the
  opportunity that is not profitable, with estimated profit 0 and score 0; it returns,
  so the error of the fetch does not reach its caller.
\<close>

theorem failed_fetch_not_profitable:
  "(\<exists>e. fetchA = Inl e) \<or> (\<exists>e. fetchB = Inl e) \<Longrightarrow>
     analyzeOpportunity tx fetchA fetchB rnd =
       Inr \<lparr>isProfitable = False, estimatedProfit = 0, aiScore = 0\<rparr>"
  by (auto simp: analyzeOpportunity_def promise_all_def split: sum.splits)

theorem failed_fetch_not_profitable_witness:
  "analyzeOpportunity tx_aa (Inr venueA) (Inl (Rejection ''timeout'')) (9 / 10) =
     Inr \<lparr>isProfitable = False, estimatedProfit = 0, aiScore = 0\<rparr>
   \<and> analyzeOpportunity tx_aa (Inl (Rejection ''timeout'')) (Inr venueB) (9 / 10) =
     Inr \<lparr>isProfitable = False, estimatedProfit = 0, aiScore = 0\<rparr>"
  using failed_fetch_not_profitable [of "Inr venueA" "Inl (Rejection ''timeout'')" tx_aa "9 / 10"]
    failed_fetch_not_profitable [of "Inl (Rejection ''timeout'')" "Inr venueB" tx_aa "9 / 10"]
  by simp

subsection \<open>C7: the resync never lowers the nonce\<close>

text \<open>
  C7. With a tracked nonce \<open>n\<close> and a chain count \<open>reported\<close>, a resync returns with
  the tracked nonce at \<open>reported\<close> when \<open>reported\<close> is higher and leaves the executor
  unchanged when \<open>reported\<close> is lower than or equal to \<open>n\<close>.
\<close>

theorem resync_never_regresses:
  assumes "nonce s = Some n"
  shows "periodicResync (Inr reported) s =
           (Inr (), s\<lparr>nonce := Some (if n < reported then reported else n)\<rparr>,
            [GetTransactionCount])
         \<and> (reported \<le> n \<longrightarrow> fst (snd (periodicResync (Inr reported) s)) = s)
         \<and> (n < reported \<longrightarrow> nonce (fst (snd (periodicResync (Inr reported) s))) = Some reported)"
  using assms by (simp add: periodicResync_def resync_def)

theorem resync_never_regresses_witness:
  "nonce ready = Some 7
   \<and> fst (snd (periodicResync (Inr 5) ready)) = ready
   \<and> fst (snd (periodicResync (Inr 7) ready)) = ready
   \<and> nonce (fst (snd (periodicResync (Inr 12) ready))) = Some 12"
proof -
  have h: "nonce ready = Some 7"
    by (simp add: ready_def)
  show ?thesis
    using h resync_never_regresses [OF h, of 5] resync_never_regresses [OF h, of 7]
      resync_never_regresses [OF h, of 12]
    by simp
qed

subsection \<open>C8: hashes that resolve to no transaction or to one without data\<close>

text \<open>
  C8, as stated, fails for a transaction without calldata: the client library reports
  its data as the string \<open>0x\<close>, which the guard \<open>!tx.data\<close> takes for data, so the
  scorer is invoked on it (here with both reads of the reserves refused); and where
  the reads and the relay answer, a bundle is sent for it.
\<close>

theorem plain_transfer_scored_counterexample:
  "spec_lacks_payload tx_plain
   \<and> getTransaction_r refusing_world = Inr (Some tx_plain)
   \<and> onPending refusing_world ''0xcc'' ready =
        (Inr (), ready,
         [GetTransaction ''0xcc'', Call_analyzeOpportunity tx_plain,
          GetReserves DEX_A_PAIR_ADDRESS, GetReserves DEX_B_PAIR_ADDRESS])
   \<and> SendBundle (bundle7 tx_plain) 101
       \<in> set (snd (snd (onPending (clean_world\<lparr>getTransaction_r := Inr (Some tx_plain)\<rparr>)
                          ''0xcc'' ready)))"
  by (simp add: spec_lacks_payload_def refusing_world_def clean_world_def tx_plain_def has_data_def
      onPending_def analyzeOpportunity_def promise_all_def gate_def executeFlashLoan_def
      bn_div_def venueA_def venueB_def ONE_ETHER_def MIN_PROFIT_THRESHOLD_def
      signed_divide_int_def AI_THRESHOLD_def ready_def bundle7_def loanAmount_large Let_def)

text \<open>
  C8, amended. When the fetch of the transaction resolves, the listener returns at
  once, without throwing and having done nothing beyond the fetch, exactly if there is
  no transaction or its data field is missing or the empty string. For every other
  fetched transaction, one whose data is \<open>0x\<close> included, it invokes the scorer on
  that transaction and goes on as the scorer's answer says: it throws what the scorer
  throws, and it applies the gate to the opportunity the scorer returns.
\<close>

theorem pending_without_data_discarded:
  assumes "getTransaction_r w = Inr fetched"
  shows "(if fetched = None \<or> (\<exists>tx. fetched = Some tx \<and> \<not> has_data tx)
          then onPending w txHash s = (Inr (), s, [GetTransaction txHash])
          else \<exists>tx. fetched = Some tx
                 \<and> onPending w txHash s =
                     (case analyzeOpportunity tx (getReservesA_r w) (getReservesB_r w) (random_r w) of
                        Inl e \<Rightarrow>
                          (Inl e, s,
                           [GetTransaction txHash, Call_analyzeOpportunity tx,
                            GetReserves DEX_A_PAIR_ADDRESS, GetReserves DEX_B_PAIR_ADDRESS])
                      | Inr opp \<Rightarrow>
                          (case gate w tx opp s of
                             (r, s', cs) \<Rightarrow>
                               (r, s',
                                [GetTransaction txHash, Call_analyzeOpportunity tx,
                                 GetReserves DEX_A_PAIR_ADDRESS, GetReserves DEX_B_PAIR_ADDRESS]
                                  @ cs))))
         \<and> (\<forall>tx. has_data tx \<longleftrightarrow> (\<exists>d. data tx = Some d \<and> d \<noteq> []))"
  using assms
  by (auto simp: onPending_def has_data_def Let_def split: option.splits sum.splits prod.splits)

theorem pending_without_data_discarded_witness:
  "onPending (clean_world\<lparr>getTransaction_r := Inr None\<rparr>) ''0xaa'' ready
      = (Inr (), ready, [GetTransaction ''0xaa''])
   \<and> onPending (clean_world\<lparr>getTransaction_r := Inr (Some \<lparr>hash = ''0xaa'', data = Some ''''\<rparr>)\<rparr>)
        ''0xaa'' ready = (Inr (), ready, [GetTransaction ''0xaa''])
   \<and> onPending (clean_world\<lparr>getTransaction_r := Inr (Some \<lparr>hash = ''0xaa'', data = None\<rparr>)\<rparr>)
        ''0xaa'' ready = (Inr (), ready, [GetTransaction ''0xaa''])
   \<and> onPending refusing_world ''0xcc'' ready =
        (Inr (), ready,
         [GetTransaction ''0xcc'', Call_analyzeOpportunity tx_plain,
          GetReserves DEX_A_PAIR_ADDRESS, GetReserves DEX_B_PAIR_ADDRESS])
   \<and> onPending clean_world ''0xaa'' ready =
        (Inr (), ready\<lparr>nonce := Some 8\<rparr>,
         [GetTransaction ''0xaa'', Call_analyzeOpportunity tx_aa,
          GetReserves DEX_A_PAIR_ADDRESS, GetReserves DEX_B_PAIR_ADDRESS,
          Log_Opportunity (10 ^ 37) (96 / 100),
          Call_executeFlashLoan tx_aa (10 ^ 37),
          Log_FlashLoan MAX_LOAN_WEI (Some 7),
          PopulateTransaction (transaction (hd (bundle7 tx_aa))), SignBundle (bundle7 tx_aa),
          GetBlockNumber, Simulate (bundle7 tx_aa) 101, SendBundle (bundle7 tx_aa) 101,
          Log_Success 101])"
proof -
  have none: "onPending (clean_world\<lparr>getTransaction_r := Inr None\<rparr>) ''0xaa'' ready
      = (Inr (), ready, [GetTransaction ''0xaa''])"
    using pending_without_data_discarded
      [of "clean_world\<lparr>getTransaction_r := Inr None\<rparr>" None "''0xaa''" ready]
    by simp
  have empty: "onPending (clean_world\<lparr>getTransaction_r := Inr (Some \<lparr>hash = ''0xaa'', data = Some ''''\<rparr>)\<rparr>)
        ''0xaa'' ready = (Inr (), ready, [GetTransaction ''0xaa''])"
    using pending_without_data_discarded
      [of "clean_world\<lparr>getTransaction_r := Inr (Some \<lparr>hash = ''0xaa'', data = Some ''''\<rparr>)\<rparr>"
          "Some \<lparr>hash = ''0xaa'', data = Some ''''\<rparr>" "''0xaa''" ready]
    by (simp add: has_data_def)
  have missing: "onPending (clean_world\<lparr>getTransaction_r := Inr (Some \<lparr>hash = ''0xaa'', data = None\<rparr>)\<rparr>)
        ''0xaa'' ready = (Inr (), ready, [GetTransaction ''0xaa''])"
    using pending_without_data_discarded
      [of "clean_world\<lparr>getTransaction_r := Inr (Some \<lparr>hash = ''0xaa'', data = None\<rparr>)\<rparr>"
          "Some \<lparr>hash = ''0xaa'', data = None\<rparr>" "''0xaa''" ready]
    by (simp add: has_data_def)
  have plain: "onPending refusing_world ''0xcc'' ready =
        (Inr (), ready,
         [GetTransaction ''0xcc'', Call_analyzeOpportunity tx_plain,
          GetReserves DEX_A_PAIR_ADDRESS, GetReserves DEX_B_PAIR_ADDRESS])"
    using pending_without_data_discarded [of refusing_world "Some tx_plain" "''0xcc''" ready]
    by (simp add: refusing_world_def clean_world_def tx_plain_def has_data_def
        analyzeOpportunity_def promise_all_def gate_def)
  have scored: "onPending clean_world ''0xaa'' ready =
        (Inr (), ready\<lparr>nonce := Some 8\<rparr>,
         [GetTransaction ''0xaa'', Call_analyzeOpportunity tx_aa,
          GetReserves DEX_A_PAIR_ADDRESS, GetReserves DEX_B_PAIR_ADDRESS,
          Log_Opportunity (10 ^ 37) (96 / 100),
          Call_executeFlashLoan tx_aa (10 ^ 37),
          Log_FlashLoan MAX_LOAN_WEI (Some 7),
          PopulateTransaction (transaction (hd (bundle7 tx_aa))), SignBundle (bundle7 tx_aa),
          GetBlockNumber, Simulate (bundle7 tx_aa) 101, SendBundle (bundle7 tx_aa) 101,
          Log_Success 101])"
    using pending_without_data_discarded [of clean_world "Some tx_aa" "''0xaa''" ready]
      analyze_venues [of tx_aa] clean_run
    by (simp add: clean_world_def tx_aa_def has_data_def gate_def AI_THRESHOLD_def)
  from none empty missing plain scored show ?thesis
    by simp
qed

subsection \<open>C9: the scorer's rule\<close>




subsection \<open>C10: the loan amount grows with the profit\<close>

text \<open>
  C10. The loan amount is a function of the estimated profit alone, the smaller of ten
  times the profit and the cap; a larger profit never gives a smaller loan; and every
  profit of at least a tenth of the cap gives exactly the cap.
\<close>

theorem loan_monotone:
  "loanAmount p = min (p * 10) MAX_LOAN_WEI
   \<and> (p1 \<le> p2 \<longrightarrow> loanAmount p1 \<le> loanAmount p2)
   \<and> (MAX_LOAN_WEI div 10 \<le> p \<longrightarrow> loanAmount p = MAX_LOAN_WEI)"
  by (auto simp: loanAmount_def Let_def MAX_LOAN_WEI_def MAX_LOAN_AMOUNT_ETH_def)

theorem loan_monotone_witness:
  "(5 * 10 ^ 17 :: int) \<le> 20000 * 10 ^ 18
   \<and> loanAmount (5 * 10 ^ 17) \<le> loanAmount (20000 * 10 ^ 18)
   \<and> MAX_LOAN_WEI div 10 \<le> 10000 * 10 ^ 18
   \<and> loanAmount (10000 * 10 ^ 18) = MAX_LOAN_WEI"
  using loan_monotone [of "10000 * 10 ^ 18" "5 * 10 ^ 17" "20000 * 10 ^ 18"]
  by (simp add: MAX_LOAN_WEI_def MAX_LOAN_AMOUNT_ETH_def)

end
